theory Spec2Isabelle
  imports Main "HOL-Library.Multiset" "HOL-Library.Stream" "HOL-Library.Sublist"
begin

section \<open>Python values\<close>

text \<open>
  A Python \<open>str\<close> is a sequence of Unicode code points, and \<open>len\<close> counts code points:
  the ellipsis U+2026 that \<open>trim_to_limit\<close> appends is one character. A string is modelled
  as the list of its code points; \<open>ascii\<close> embeds a literal written in ASCII.
\<close>

type_synonym pychar = nat
type_synonym pystr = "pychar list"

definition ascii :: "string \<Rightarrow> pystr" where
  "ascii s = map of_char s"

definition space :: pychar where
  "space = 32"

definition ellipsis :: pychar where
  "ellipsis = 8230"

text \<open>The exceptions the program can raise, as values.\<close>

datatype py_error =
    FileNotFoundError
  | ValueError
  | IndexError
  | UnknownTimeZoneError
  | RuntimeError
  | TweepyException

text \<open>
  \<open>xs[:k]\<close>: a negative stop counts from the end, and a stop beyond either end is clipped.
\<close>

definition slice_to :: "'a list \<Rightarrow> int \<Rightarrow> 'a list" where
  "slice_to xs k = (if k < 0 then take (nat (int (length xs) + k)) xs else take (nat k) xs)"

text \<open>\<open>xs[i]\<close>: a negative index counts from the end; out of range raises \<open>IndexError\<close>.\<close>

definition py_get :: "'a list \<Rightarrow> int \<Rightarrow> py_error + 'a" where
  "py_get xs i =
     (let n = int (length xs); j = (if i < 0 then i + n else i)
      in if 0 \<le> j \<and> j < n then Inr (xs ! nat j) else Inl IndexError)"

text \<open>\<open>s.rfind(c)\<close> for a single character: the highest index of \<open>c\<close>, or \<open>-1\<close>.\<close>

fun rfind :: "'a \<Rightarrow> 'a list \<Rightarrow> int" where
  "rfind c [] = - 1"
| "rfind c (x # xs) =
     (let r = rfind c xs in if 0 \<le> r then r + 1 else if x = c then 0 else - 1)"

text \<open>
  \<open>str.isspace\<close> for one character, which is what \<open>str.strip()\<close> and \<open>int()\<close> remove:
  the Unicode white space characters.
\<close>

definition py_isspace :: "pychar \<Rightarrow> bool" where
  "py_isspace c =
     ((9 \<le> c \<and> c \<le> 13) \<or> (28 \<le> c \<and> c \<le> 32) \<or> c = 133 \<or> c = 160 \<or> c = 5760 \<or>
      (8192 \<le> c \<and> c \<le> 8202) \<or> c = 8232 \<or> c = 8233 \<or> c = 8239 \<or> c = 8287 \<or> c = 12288)"

definition strip :: "pystr \<Rightarrow> pystr" where
  "strip s = rev (dropWhile py_isspace (rev (dropWhile py_isspace s)))"

section \<open>Length limiter\<close>

text \<open>
  \<^verbatim>\<open>
  def trim_to_limit(text, limit=280):
      if len(text) <= limit:
          return text
      cutoff = text[:limit]
      if " " in cutoff:
          cutoff = cutoff[:cutoff.rfind(" ")]
      return cutoff[:limit-1] + "..."      (the last literal is the one character U+2026)
  \<close>
\<close>

definition trim_to_limit :: "pystr \<Rightarrow> int \<Rightarrow> pystr" where
  "trim_to_limit text limit =
     (if int (length text) \<le> limit then text
      else
        let cutoff = slice_to text limit;
            cutoff = (if space \<in> set cutoff then slice_to cutoff (rfind space cutoff) else cutoff)
        in slice_to cutoff (limit - 1) @ [ellipsis])"

section \<open>Strings\<close>

text \<open>\<open>sub in s\<close> for strings, and \<open>s.replace(old, new)\<close> (every occurrence, left to right).\<close>

fun contains :: "'a list \<Rightarrow> 'a list \<Rightarrow> bool" where
  "contains [] sub = (sub = [])"
| "contains (c # cs) sub = (prefix sub (c # cs) \<or> contains cs sub)"

function py_replace :: "'a list \<Rightarrow> 'a list \<Rightarrow> 'a list \<Rightarrow> 'a list" where
  "py_replace old new [] = (if old = [] then new else [])"
| "py_replace old new (c # cs) =
     (if old = [] then new @ c # py_replace old new cs
      else if prefix old (c # cs) then new @ py_replace old new (drop (length old) (c # cs))
      else c # py_replace old new cs)"
  by pat_completeness auto
termination
  by (relation "measure (\<lambda>(old, new, s). length s)") auto

text \<open>
  \<open>s.lower()\<close> on the ASCII letters. Python also lowers letters outside ASCII; none of them
  becomes a character of \<open>1\<close>, \<open>true\<close>, \<open>yes\<close> or \<open>y\<close>, the only strings \<open>lower\<close> is compared
  with here.
\<close>

definition lower :: "pystr \<Rightarrow> pystr" where
  "lower s = map (\<lambda>c. if 65 \<le> c \<and> c \<le> 90 then c + 32 else c) s"

text \<open>\<open>s.split(sep)\<close> for a one-character separator.\<close>

fun split_on :: "'a \<Rightarrow> 'a list \<Rightarrow> 'a list list" where
  "split_on sep [] = [[]]"
| "split_on sep (c # cs) =
     (if c = sep then [] # split_on sep cs
      else (case split_on sep cs of p # ps \<Rightarrow> (c # p) # ps | [] \<Rightarrow> [[c]]))"

text \<open>
  \<open>s.splitlines()\<close>: a line ends at LF, CR, CR LF, VT, FF, FS, GS, RS, NEL, LS or PS, and
  there is no empty last line.
\<close>

definition is_linebreak :: "pychar \<Rightarrow> bool" where
  "is_linebreak c =
     (c = 10 \<or> c = 11 \<or> c = 12 \<or> c = 13 \<or> c = 28 \<or> c = 29 \<or> c = 30 \<or> c = 133 \<or>
      c = 8232 \<or> c = 8233)"

fun splitlines_from :: "pystr \<Rightarrow> pystr \<Rightarrow> pystr list" where
  "splitlines_from cur [] = (if cur = [] then [] else [cur])"
| "splitlines_from cur [c] = (if is_linebreak c then [cur] else [cur @ [c]])"
| "splitlines_from cur (c # d # cs) =
     (if c = 13 \<and> d = 10 then cur # splitlines_from [] cs
      else if is_linebreak c then cur # splitlines_from [] (d # cs)
      else splitlines_from (cur @ [c]) (d # cs))"

definition splitlines :: "pystr \<Rightarrow> pystr list" where
  "splitlines s = splitlines_from [] s"

text \<open>
  \<open>int(s)\<close> on a string: white space around, an optional sign, then decimal digits, where
  single underscores may stand between digits; anything else raises \<open>ValueError\<close>
  (\<open>None\<close> here). The digits are the ASCII digits: Python also reads the decimal digits
  of other scripts, and refuses a string of more than 4300 digits, which no \<open>HH:MM\<close>
  setting is.
\<close>

definition is_digit :: "pychar \<Rightarrow> bool" where
  "is_digit c = (48 \<le> c \<and> c \<le> 57)"

fun parse_digits :: "nat \<Rightarrow> pystr \<Rightarrow> nat option" where
  "parse_digits acc [] = Some acc"
| "parse_digits acc [c] = (if is_digit c then Some (10 * acc + (c - 48)) else None)"
| "parse_digits acc (c # d # cs) =
     (if is_digit c then parse_digits (10 * acc + (c - 48)) (d # cs)
      else if c = 95 \<and> is_digit d then parse_digits (10 * acc + (d - 48)) cs
      else None)"

definition py_int :: "pystr \<Rightarrow> int option" where
  "py_int s =
     (case strip s of
        [] \<Rightarrow> None
      | c # cs \<Rightarrow>
          let body = (if c = 45 \<or> c = 43 then cs else c # cs) in
          (case body of
             [] \<Rightarrow> None
           | d # ds \<Rightarrow>
               if is_digit d
               then map_option (\<lambda>v. if c = 45 then - int v else int v) (parse_digits (d - 48) ds)
               else None))"

section \<open>Dates and times\<close>

text \<open>
  A \<open>datetime\<close> of one time zone. Two aware datetimes with the same \<open>tzinfo\<close> compare by
  their fields, most significant first; \<open>now.replace(...)\<close> keeps the \<open>tzinfo\<close> of \<open>now\<close>.
\<close>

record datetime =
  year :: nat
  month :: nat
  day :: nat
  hour :: nat
  minute :: nat
  second :: nat
  microsecond :: nat

definition dt_fields :: "datetime \<Rightarrow> nat list" where
  "dt_fields d = [year d, month d, day d, hour d, minute d, second d, microsecond d]"

fun cmp_fields :: "nat list \<Rightarrow> nat list \<Rightarrow> int" where
  "cmp_fields (x # xs) (y # ys) = (if x < y then - 1 else if y < x then 1 else cmp_fields xs ys)"
| "cmp_fields _ _ = 0"

definition dt_cmp :: "datetime \<Rightarrow> datetime \<Rightarrow> int" where
  "dt_cmp a b = cmp_fields (dt_fields a) (dt_fields b)"

text \<open>
  \<open>now.replace(hour=h, minute=m, second=0, microsecond=0)\<close> raises \<open>ValueError\<close> for an
  hour outside 0..23 or a minute outside 0..59.
\<close>

definition replace_hm :: "datetime \<Rightarrow> int \<Rightarrow> int \<Rightarrow> py_error + datetime" where
  "replace_hm now h m =
     (if 0 \<le> h \<and> h \<le> 23 \<and> 0 \<le> m \<and> m \<le> 59
      then Inr (now\<lparr>hour := nat h, minute := nat m, second := 0, microsecond := 0\<rparr>)
      else Inl ValueError)"

text \<open>
  \<open>d.strftime("%Y-%m-%d")\<close>: the year in four digits, the month and the day in two, for
  the years 1000 to 9999 (the years before 1000 are padded on some platforms only).
\<close>

definition digit_char :: "nat \<Rightarrow> pychar" where
  "digit_char n = 48 + n mod 10"

definition two_digits :: "nat \<Rightarrow> pystr" where
  "two_digits n = [digit_char (n div 10), digit_char n]"

definition strftime_ymd :: "datetime \<Rightarrow> pystr" where
  "strftime_ymd d =
     [digit_char (year d div 1000), digit_char (year d div 100), digit_char (year d div 10),
      digit_char (year d)] @ [45] @ two_digits (month d) @ [45] @ two_digits (day d)"

section \<open>Time gate\<close>

text \<open>
  The line \<open>sh, sm = map(int, start_hm.split(":"))\<close>: exactly two parts, each read by
  \<open>int\<close>; every failure is a \<open>ValueError\<close>.
\<close>

definition parse_hm :: "pystr \<Rightarrow> py_error + (int \<times> int)" where
  "parse_hm s =
     (case split_on 58 s of
        [a, b] \<Rightarrow>
          (case py_int a of
             None \<Rightarrow> Inl ValueError
           | Some h \<Rightarrow> (case py_int b of None \<Rightarrow> Inl ValueError | Some m \<Rightarrow> Inr (h, m)))
      | _ \<Rightarrow> Inl ValueError)"

text \<open>
  The body of the \<open>try\<close> in \<open>within_run_window\<close>. The time zone database and the clock are
  outside the program: \<open>local_now tzname\<close> is \<open>None\<close> when \<open>pytz.timezone(tzname)\<close> raises,
  and otherwise the value of \<open>datetime.now(tz)\<close>.
\<close>

definition window_check ::
  "(pystr \<Rightarrow> datetime option) \<Rightarrow> pystr \<Rightarrow> pystr \<Rightarrow> pystr \<Rightarrow> py_error + bool" where
  "window_check local_now tzname start_hm end_hm =
     (case local_now tzname of
        None \<Rightarrow> Inl UnknownTimeZoneError
      | Some now \<Rightarrow>
          (case parse_hm start_hm of
             Inl e \<Rightarrow> Inl e
           | Inr (sh, sm) \<Rightarrow>
               (case parse_hm end_hm of
                  Inl e \<Rightarrow> Inl e
                | Inr (eh, em) \<Rightarrow>
                    (case replace_hm now sh sm of
                       Inl e \<Rightarrow> Inl e
                     | Inr start \<Rightarrow>
                         (case replace_hm now eh em of
                            Inl e \<Rightarrow> Inl e
                          | Inr end \<Rightarrow>
                              if dt_cmp end start \<le> 0
                              then Inr (0 \<le> dt_cmp now start \<or> dt_cmp now end < 0)
                              else Inr (0 \<le> dt_cmp now start \<and> dt_cmp now end < 0))))))"

text \<open>
  \<^verbatim>\<open>
  def within_run_window(tzname, start_hm, end_hm):
      if not (tzname and start_hm and end_hm):
          return True  # no gating
      try:
          ...
      except Exception:
          return True
  \<close>
\<close>

definition within_run_window ::
  "(pystr \<Rightarrow> datetime option) \<Rightarrow> pystr \<Rightarrow> pystr \<Rightarrow> pystr \<Rightarrow> bool" where
  "within_run_window local_now tzname start_hm end_hm =
     (if tzname = [] \<or> start_hm = [] \<or> end_hm = [] then True
      else (case window_check local_now tzname start_hm end_hm of
              Inl e \<Rightarrow> True
            | Inr open \<Rightarrow> open))"

text \<open>A well-formed \<open>HH:MM\<close> setting: two digits, a colon, two digits.\<close>

definition hhmm :: "nat \<Rightarrow> nat \<Rightarrow> pystr" where
  "hhmm h m = two_digits h @ [58] @ two_digits m"

section \<open>Rotation state and the state file\<close>

text \<open>
  The state is the dictionary \<open>{"index": ..., "order": ..., "last_posted_at": ...}\<close> that
  \<open>load_state\<close> returns by default and \<open>save_state\<close> writes: an integer cursor, a list of
  integers and a time stamp or \<open>None\<close>. Python integers are unbounded.
\<close>

record rotation_state =
  index :: int
  order :: "int list"
  last_posted_at :: "pystr option"

definition default_state :: rotation_state where
  "default_state = \<lparr>index = 0, order = [], last_posted_at = None\<rparr>"

text \<open>
  The file \<open>data/state.json\<close>, by what reading it gives: it does not exist, or reading and
  \<open>json.loads\<close> raise on it, or it holds a state.
\<close>

datatype state_file = Absent | Unparseable | Stored rotation_state

definition read_json :: "state_file \<Rightarrow> py_error + rotation_state" where
  "read_json f = (case f of Stored st \<Rightarrow> Inr st | _ \<Rightarrow> Inl ValueError)"

text \<open>
  \<^verbatim>\<open>
  def load_state():
      if STATE_FILE.exists():
          try:
              return json.loads(STATE_FILE.read_text(encoding="utf-8"))
          except Exception:
              pass
      return {"index": 0, "order": [], "last_posted_at": None}
  \<close>
\<close>

definition load_state :: "state_file \<Rightarrow> rotation_state" where
  "load_state f =
     (if f \<noteq> Absent
      then (case read_json f of Inr st \<Rightarrow> st | Inl e \<Rightarrow> default_state)
      else default_state)"

section \<open>Idea store\<close>

text \<open>
  \<^verbatim>\<open>
  def load_ideas():
      if not CONTENT_FILE.exists():
          raise FileNotFoundError(...)
      ideas = [line.strip() for line in CONTENT_FILE.read_text(...).splitlines() if line.strip()]
      if not ideas:
          raise ValueError(...)
      return ideas
  \<close>
  The content file is its text, or \<open>None\<close> when it does not exist.
\<close>

definition load_ideas :: "pystr option \<Rightarrow> py_error + pystr list" where
  "load_ideas content =
     (case content of
        None \<Rightarrow> Inl FileNotFoundError
      | Some txt \<Rightarrow>
          let ideas = filter (\<lambda>l. l \<noteq> []) (map strip (splitlines txt))
          in if ideas = [] then Inl ValueError else Inr ideas)"

section \<open>Rotation engine\<close>

text \<open>
  \<open>random.shuffle(x)\<close> is the loop
  \<^verbatim>\<open>
      for i in reversed(range(1, len(x))):
          j = randbelow(i + 1)
          x[i], x[j] = x[j], x[i]
  \<close>
  The generator is outside the program: it is a stream of draws, and \<open>randbelow k\<close> takes the
  next draw, reduced below \<open>k\<close>.
\<close>

fun shuffle_loop :: "nat \<Rightarrow> 'a list \<Rightarrow> nat stream \<Rightarrow> 'a list \<times> nat stream" where
  "shuffle_loop 0 x g = (x, g)"
| "shuffle_loop (Suc k) x g =
     (let i = Suc k; j = shd g mod (i + 1)
      in shuffle_loop k (x[i := x ! j, j := x ! i]) (stl g))"

definition shuffle :: "'a list \<Rightarrow> nat stream \<Rightarrow> 'a list \<times> nat stream" where
  "shuffle x g = shuffle_loop (length x - 1) x g"

text \<open>
  \<^verbatim>\<open>
  def ensure_order(state, n):
      order = state.get("order") or []
      # regenerate if empty or invalid
      if not order or any(i >= n for i in order):
          order = list(range(n))
          random.shuffle(order)
          state["order"] = order
          state["index"] = 0
      return order
  \<close>
  The function changes \<open>state\<close> in place; here it returns the order, the state and the
  generator.
\<close>

definition ensure_order ::
  "rotation_state \<Rightarrow> int \<Rightarrow> nat stream \<Rightarrow> int list \<times> rotation_state \<times> nat stream" where
  "ensure_order state n g =
     (if order state = [] \<or> list_ex (\<lambda>i. n \<le> i) (order state)
      then
        let (order', g') = shuffle [0..n - 1] g
        in (order', state\<lparr>order := order', index := 0\<rparr>, g')
      else (order state, state, g))"

text \<open>
  The selection in \<open>main\<close>:
  \<^verbatim>\<open>
      ensure_order(state, len(ideas))
      idx = state.get("index", 0)
      order = state["order"]
      if idx >= len(order):
          # reshuffle if completed
          random.shuffle(order)
          state["order"] = order
          idx = 0
      idea_index = order[idx]
  \<close>
  It gives the idea index, the cursor \<open>idx\<close> and the state.
\<close>

definition select_idea ::
  "rotation_state \<Rightarrow> nat \<Rightarrow> nat stream \<Rightarrow> py_error + (int \<times> int \<times> rotation_state)" where
  "select_idea state n g =
     (let (order0, state1, g1) = ensure_order state (int n) g;
          (state2, idx) =
            (if int (length (order state1)) \<le> index state1
             then (state1\<lparr>order := fst (shuffle (order state1) g1)\<rparr>, 0)
             else (state1, index state1))
      in case py_get (order state2) idx of
           Inl e \<Rightarrow> Inl e
         | Inr idea_index \<Rightarrow> Inr (idea_index, idx, state2))"

text \<open>
  One advance of the rotation: the selection, then \<open>state["index"] = idx + 1\<close>, the cursor
  incremented after the selection.
\<close>

definition advance ::
  "rotation_state \<Rightarrow> nat \<Rightarrow> nat stream \<Rightarrow> py_error + (int \<times> rotation_state)" where
  "advance state n g =
     (case select_idea state n g of
        Inl e \<Rightarrow> Inl e
      | Inr (idea_index, idx, state') \<Rightarrow> Inr (idea_index, state'\<lparr>index := idx + 1\<rparr>))"

text \<open>
  Successive advances, each run of the program with the draws of its own generator; the
  result is the list of the idea indices selected and the last state.
\<close>

fun advance_runs ::
  "rotation_state \<Rightarrow> nat \<Rightarrow> nat stream list \<Rightarrow> py_error + (int list \<times> rotation_state)" where
  "advance_runs state n [] = Inr ([], state)"
| "advance_runs state n (g # gs) =
     (case advance state n g of
        Inl e \<Rightarrow> Inl e
      | Inr (i, state') \<Rightarrow>
          (case advance_runs state' n gs of
             Inl e \<Rightarrow> Inl e
           | Inr (picks, state'') \<Rightarrow> Inr (i # picks, state'')))"

section \<open>The world of one run\<close>

text \<open>
  What one run of the program reads from outside: the environment after \<open>load_dotenv\<close>, the
  two files, the time zone database with the clock (one reading of the clock for the run),
  the random generator and the posting service, which accepts a text or raises.
\<close>

record world =
  environ :: "string \<Rightarrow> pystr option"
  content_file :: "pystr option"
  state_file :: state_file
  zone_now :: "pystr \<Rightarrow> datetime option"
  utc_now :: datetime
  utc_stamp :: pystr
  draws :: "nat stream"
  update_status :: "pystr \<Rightarrow> bool"

text \<open>\<open>os.getenv(key, default)\<close>.\<close>

definition getenv :: "world \<Rightarrow> string \<Rightarrow> pystr \<Rightarrow> pystr" where
  "getenv w key dflt = (case environ w key of None \<Rightarrow> dflt | Some v \<Rightarrow> v)"

section \<open>Text composer\<close>

text \<open>
  The substitution in \<open>main\<close>:
  \<^verbatim>\<open>
      if topic and "{topic}" in raw_text:
          raw_text = raw_text.replace("{topic}", topic)
  \<close>
\<close>

definition substitute_topic :: "pystr \<Rightarrow> pystr \<Rightarrow> pystr" where
  "substitute_topic topic raw_text =
     (if topic \<noteq> [] \<and> contains raw_text (ascii ''{topic}'')
      then py_replace (ascii ''{topic}'') topic raw_text
      else raw_text)"

text \<open>
  \<^verbatim>\<open>
  def build_tweet(raw_text, tzname):
      add_date = os.getenv("ADD_DATE", "true").lower() in ("1", "true", "yes", "y")
      add_hashtag = os.getenv("ADD_HASHTAG", "").strip()
      tz = pytz.timezone(tzname) if tzname else pytz.utc
      today = datetime.now(tz).strftime("%Y-%m-%d")
      parts = [raw_text]
      if add_date:
          parts.append(f"\n\n{today}")
      if add_hashtag:
          parts.append(f" #{add_hashtag}")
      text = "".join(parts).strip()
      return trim_to_limit(text)
  \<close>
  Outside the \<open>try\<close> of the time gate, an unknown time zone name raises here.
\<close>

definition add_date :: "world \<Rightarrow> bool" where
  "add_date w =
     (lower (getenv w ''ADD_DATE'' (ascii ''true''))
        \<in> set [ascii ''1'', ascii ''true'', ascii ''yes'', ascii ''y''])"

definition add_hashtag :: "world \<Rightarrow> pystr" where
  "add_hashtag w = strip (getenv w ''ADD_HASHTAG'' [])"

definition build_tweet :: "world \<Rightarrow> pystr \<Rightarrow> pystr \<Rightarrow> py_error + pystr" where
  "build_tweet w raw_text tzname =
     (case (if tzname \<noteq> [] then zone_now w tzname else Some (utc_now w)) of
        None \<Rightarrow> Inl UnknownTimeZoneError
      | Some now \<Rightarrow>
          let today = strftime_ymd now;
              parts = [raw_text]
                @ (if add_date w then [[10, 10] @ today] else [])
                @ (if add_hashtag w \<noteq> [] then [[32, 35] @ add_hashtag w] else []);
              text = strip (concat parts)
          in Inr (trim_to_limit text 280))"

section \<open>Publisher\<close>

text \<open>
  \<^verbatim>\<open>
  def post_tweet(text):
      api_key = os.getenv("TWITTER_API_KEY") or os.getenv("X_API_KEY")
      ... (api_secret, access_token, access_secret alike)
      if not all([api_key, api_secret, access_token, access_secret]):
          raise RuntimeError(...)
      auth = tweepy.OAuth1UserHandler(api_key, api_secret, access_token, access_secret)
      api = tweepy.API(auth)
      api.update_status(status=text)
  \<close>
\<close>

definition credential :: "world \<Rightarrow> string \<Rightarrow> string \<Rightarrow> bool" where
  "credential w a b =
     (case environ w a of
        Some v \<Rightarrow> v \<noteq> [] \<or> (case environ w b of Some u \<Rightarrow> u \<noteq> [] | None \<Rightarrow> False)
      | None \<Rightarrow> (case environ w b of Some u \<Rightarrow> u \<noteq> [] | None \<Rightarrow> False))"

definition post_tweet :: "world \<Rightarrow> pystr \<Rightarrow> py_error + unit" where
  "post_tweet w text =
     (if credential w ''TWITTER_API_KEY'' ''X_API_KEY'' \<and>
         credential w ''TWITTER_API_SECRET'' ''X_API_SECRET'' \<and>
         credential w ''TWITTER_ACCESS_TOKEN'' ''X_ACCESS_TOKEN'' \<and>
         credential w ''TWITTER_ACCESS_SECRET'' ''X_ACCESS_SECRET''
      then (if update_status w text then Inr () else Inl TweepyException)
      else Inl RuntimeError)"

section \<open>The run\<close>

text \<open>
  What a run leaves: how it ended, the state file after it, and the idea index it selected,
  if it came to select one (the local variable \<open>idea_index\<close> of \<open>main\<close>).
\<close>

datatype outcome = Skipped | Raised py_error | Posted pystr

record run_result =
  outcome :: outcome
  state_file_after :: state_file
  selected :: "int option"

text \<open>The call of the time gate in \<open>main\<close>, with the settings read from the environment.\<close>

definition window_open :: "world \<Rightarrow> bool" where
  "window_open w =
     within_run_window (zone_now w) (getenv w ''TIMEZONE'' (ascii ''Europe/Riga''))
       (getenv w ''RUN_WINDOW_START'' []) (getenv w ''RUN_WINDOW_END'' [])"

text \<open>
  \<^verbatim>\<open>
  def main():
      load_dotenv(dotenv_path=ROOT / ".env")
      topic = os.getenv("TOPIC", "").strip()
      tzname = os.getenv("TIMEZONE", "Europe/Riga")
      start_hm = os.getenv("RUN_WINDOW_START", "")
      end_hm = os.getenv("RUN_WINDOW_END", "")
      if not within_run_window(tzname, start_hm, end_hm):
          print(...)
          return
      ideas = load_ideas()
      state = load_state()
      ... (the selection, see select_idea)
      raw_text = ideas[idea_index]
      ... (the substitution, see substitute_topic)
      tweet = build_tweet(raw_text, tzname)
      post_tweet(tweet)
      state["index"] = idx + 1
      state["last_posted_at"] = datetime.utcnow().isoformat() + "Z"
      save_state(state)
      print(..., tweet)
  \<close>
  An exception ends the run where it is raised; the state file is written by \<open>save_state\<close>
  only, in the last but one line.
\<close>

definition main :: "world \<Rightarrow> run_result" where
  "main w =
     (let topic = strip (getenv w ''TOPIC'' []);
          tzname = getenv w ''TIMEZONE'' (ascii ''Europe/Riga'')
      in
      if \<not> window_open w
      then \<lparr>outcome = Skipped, state_file_after = state_file w, selected = None\<rparr>
      else
        (case load_ideas (content_file w) of
           Inl e \<Rightarrow> \<lparr>outcome = Raised e, state_file_after = state_file w, selected = None\<rparr>
         | Inr ideas \<Rightarrow>
             (case select_idea (load_state (state_file w)) (length ideas) (draws w) of
                Inl e \<Rightarrow>
                  \<lparr>outcome = Raised e, state_file_after = state_file w, selected = None\<rparr>
              | Inr (idea_index, idx, state) \<Rightarrow>
                  (case py_get ideas idea_index of
                     Inl e \<Rightarrow>
                       \<lparr>outcome = Raised e, state_file_after = state_file w,
                        selected = Some idea_index\<rparr>
                   | Inr raw_text \<Rightarrow>
                       (case build_tweet w (substitute_topic topic raw_text) tzname of
                          Inl e \<Rightarrow>
                            \<lparr>outcome = Raised e, state_file_after = state_file w,
                             selected = Some idea_index\<rparr>
                        | Inr tweet \<Rightarrow>
                            (case post_tweet w tweet of
                               Inl e \<Rightarrow>
                                 \<lparr>outcome = Raised e, state_file_after = state_file w,
                                  selected = Some idea_index\<rparr>
                             | Inr u \<Rightarrow>
                                 \<lparr>outcome = Posted tweet,
                                  state_file_after =
                                    Stored (state\<lparr>index := idx + 1,
                                      last_posted_at := Some (utc_stamp w @ [90])\<rparr>),
                                  selected = Some idea_index\<rparr>))))))"

section \<open>Example values\<close>

text \<open>A clock that shows the given hour and minute of 17 May 2024 in every time zone.\<close>

definition clock_at :: "nat \<Rightarrow> nat \<Rightarrow> pystr \<Rightarrow> datetime option" where
  "clock_at h m tz =
     Some \<lparr>year = 2024, month = 5, day = 17, hour = h, minute = m, second = 42,
           microsecond = 7\<rparr>"

text \<open>
  An environment with the four credentials, the topic \<open>X\<close> and no date; a world with three
  ideas, no run window, a clock at 10:30 and a posting service that accepts every text or
  none; two stored states; and a world with the date and a hashtag switched on.
\<close>

definition example_env :: "string \<Rightarrow> pystr option" where
  "example_env key =
     (if key \<in> set [''TWITTER_API_KEY'', ''TWITTER_API_SECRET'', ''TWITTER_ACCESS_TOKEN'',
                     ''TWITTER_ACCESS_SECRET'']
      then Some (ascii ''secret'')
      else if key = ''TOPIC'' then Some (ascii ''X'')
      else if key = ''ADD_DATE'' then Some (ascii ''false'')
      else None)"

definition example_world :: "state_file \<Rightarrow> nat stream \<Rightarrow> bool \<Rightarrow> world" where
  "example_world f g accepted =
     \<lparr>environ = example_env,
      content_file = Some (ascii ''alpha'' @ [10] @ ascii ''Idea {topic}'' @ [10] @ ascii ''gamma''),
      state_file = f,
      zone_now = clock_at 10 30,
      utc_now = \<lparr>year = 2024, month = 5, day = 17, hour = 7, minute = 30, second = 42,
                 microsecond = 7\<rparr>,
      utc_stamp = ascii ''2024-05-17T07:30:42.000007'',
      draws = g,
      update_status = (\<lambda>text. accepted)\<rparr>"

definition stored_example :: rotation_state where
  "stored_example = \<lparr>index = 1, order = [2, 0, 1], last_posted_at = None\<rparr>"

definition negative_example :: rotation_state where
  "negative_example = \<lparr>index = 0, order = [- 4, 0, 1], last_posted_at = None\<rparr>"


section \<open>Properties of the length limiter\<close>

lemma rfind_bounds: "- 1 \<le> rfind c xs \<and> rfind c xs < int (length xs)"
  by (induction xs) (auto simp: Let_def)

lemma rfind_member: "c \<in> set xs \<Longrightarrow> 0 \<le> rfind c xs"
  by (induction xs) (auto simp: Let_def)

lemma length_slice_to_le: "length (slice_to xs k) \<le> length xs"
  by (auto simp: slice_to_def)

lemma length_slice_to_nonneg: "0 \<le> k \<Longrightarrow> int (length (slice_to xs k)) \<le> k"
  by (simp add: slice_to_def)

text \<open>
  Claim C8. A text no longer than the limit is returned unchanged.
\<close>

theorem trim_to_limit_identity:
  "int (length text) \<le> limit \<Longrightarrow> trim_to_limit text limit = text"
  by (simp add: trim_to_limit_def)

theorem trim_to_limit_identity_witness:
  "int (length (ascii ''a b c d e'')) \<le> 9 \<and>
   trim_to_limit (ascii ''a b c d e'') 9 = ascii ''a b c d e''"
  using trim_to_limit_identity [of "ascii ''a b c d e''" 9]
  by (simp add: ascii_def)

text \<open>
  Claim C4, as amended. For a limit of at least 1 and a text longer than the limit, the
  result is at most \<open>limit\<close> characters long and ends with the ellipsis; on
  \<open>a b c d e\<close> with limit 5 the prefix \<open>a b c\<close> is cut back to its last space and the
  result is \<open>a b\<close> followed by the ellipsis, four characters.
\<close>

theorem trim_to_limit_truncates:
  assumes "1 \<le> limit" and "limit < int (length text)"
  shows "length (trim_to_limit text limit) \<le> nat limit \<and>
         trim_to_limit text limit \<noteq> [] \<and>
         last (trim_to_limit text limit) = ellipsis \<and>
         trim_to_limit (ascii ''a b c d e'') 5 = ascii ''a b'' @ [ellipsis]"
proof -
  define c0 where "c0 = slice_to text limit"
  define c1 where "c1 = (if space \<in> set c0 then slice_to c0 (rfind space c0) else c0)"
  have res: "trim_to_limit text limit = slice_to c1 (limit - 1) @ [ellipsis]"
    using assms by (simp add: trim_to_limit_def c0_def c1_def Let_def)
  have "int (length (slice_to c1 (limit - 1))) \<le> limit - 1"
    using assms(1) by (intro length_slice_to_nonneg) simp
  then have len: "length (trim_to_limit text limit) \<le> nat limit"
    using assms(1) by (simp add: res)
  have ex: "trim_to_limit (ascii ''a b c d e'') 5 = ascii ''a b'' @ [ellipsis]"
    by (simp add: trim_to_limit_def ascii_def slice_to_def space_def Let_def)
  show ?thesis
    using len ex by (simp add: res)
qed

theorem trim_to_limit_truncates_witness:
  "(1::int) \<le> 3 \<and> 3 < int (length (ascii ''ab cd'')) \<and>
   trim_to_limit (ascii ''ab cd'') 3 = ascii ''ab'' @ [ellipsis] \<and>
   length (trim_to_limit (ascii ''ab cd'') 3) \<le> nat 3 \<and>
   last (trim_to_limit (ascii ''ab cd'') 3) = ellipsis"
  using trim_to_limit_truncates [of 3 "ascii ''ab cd''"]
  by (simp add: trim_to_limit_def ascii_def slice_to_def space_def Let_def)

text \<open>
  The claim as stated, for every limit, fails at limit 0: the one-character text \<open>a\<close> is
  longer than 0, and the result is the ellipsis alone, one character.
\<close>

theorem trim_to_limit_limit_zero_counterexample:
  "int (length (ascii ''a'')) > 0 \<and>
   trim_to_limit (ascii ''a'') 0 = [ellipsis] \<and>
   \<not> int (length (trim_to_limit (ascii ''a'') 0)) \<le> 0"
  by (simp add: trim_to_limit_def ascii_def slice_to_def space_def Let_def)

section \<open>Properties of the time gate\<close>

lemma digit_char_facts:
  "is_digit (digit_char n)" "\<not> py_isspace (digit_char n)" "digit_char n \<noteq> 58"
  "digit_char n \<noteq> 45" "digit_char n \<noteq> 43" "digit_char n \<noteq> 95" "digit_char n - 48 = n mod 10"
  by (simp_all add: digit_char_def is_digit_def py_isspace_def) presburger+

lemma py_int_two_digits: "n < 100 \<Longrightarrow> py_int (two_digits n) = Some (int n)"
  by (simp add: py_int_def two_digits_def strip_def digit_char_facts)

lemma split_on_hhmm: "split_on 58 (hhmm h m) = [two_digits h, two_digits m]"
  by (simp add: hhmm_def two_digits_def digit_char_facts)

lemma parse_hm_hhmm: "h < 100 \<Longrightarrow> m < 100 \<Longrightarrow> parse_hm (hhmm h m) = Inr (int h, int m)"
  by (simp add: parse_hm_def split_on_hhmm py_int_two_digits)

lemma hhmm_nonempty: "hhmm h m \<noteq> []"
  by (simp add: hhmm_def two_digits_def)

lemma dt_cmp_ge_replace:
  "minute now < 60 \<Longrightarrow> m < 60 \<Longrightarrow>
   (0 \<le> dt_cmp now (now\<lparr>hour := h, minute := m, second := 0, microsecond := 0\<rparr>)) =
   (60 * h + m \<le> 60 * hour now + minute now)"
  by (auto simp: dt_cmp_def dt_fields_def)

lemma dt_cmp_lt_replace:
  "minute now < 60 \<Longrightarrow> m < 60 \<Longrightarrow>
   (dt_cmp now (now\<lparr>hour := h, minute := m, second := 0, microsecond := 0\<rparr>) < 0) =
   (60 * hour now + minute now < 60 * h + m)"
  by (auto simp: dt_cmp_def dt_fields_def)

lemma dt_cmp_le_replace2:
  "m < 60 \<Longrightarrow> m' < 60 \<Longrightarrow>
   (dt_cmp (now\<lparr>hour := h', minute := m', second := 0, microsecond := 0\<rparr>)
           (now\<lparr>hour := h, minute := m, second := 0, microsecond := 0\<rparr>) \<le> 0) =
   (60 * h' + m' \<le> 60 * h + m)"
  by (auto simp: dt_cmp_def dt_fields_def)

lemma window_check_parsed:
  assumes "zn tzname = Some now" and "minute now < 60"
    and "parse_hm start_hm = Inr (int sh, int sm)" and "parse_hm end_hm = Inr (int eh, int em)"
    and "sh < 24" "sm < 60" "eh < 24" "em < 60"
  shows "window_check zn tzname start_hm end_hm =
         Inr (if 60 * sh + sm < 60 * eh + em
              then 60 * sh + sm \<le> 60 * hour now + minute now \<and>
                   60 * hour now + minute now < 60 * eh + em
              else 60 * sh + sm \<le> 60 * hour now + minute now \<or>
                   60 * hour now + minute now < 60 * eh + em)"
  using assms
  by (simp add: window_check_def replace_hm_def dt_cmp_ge_replace dt_cmp_lt_replace
      dt_cmp_le_replace2 not_less)

text \<open>
  Claim C5. With a time zone that is known and two well-formed \<open>HH:MM\<close> bounds, the gate is
  open exactly when \<open>start \<le> now < end\<close> if \<open>start < end\<close>, and exactly when \<open>now \<ge> start\<close>
  or \<open>now < end\<close> if \<open>end \<le> start\<close> (the window crosses midnight). The bounds carry no
  seconds, so the comparisons are those of the minute of the day. The examples of the claim
  are the witness: 09:00 to 12:00 is open at 10:30 and closed at 08:00, 22:00 to 02:00 is
  open at 23:30 and closed at 03:00.
\<close>

theorem within_run_window_half_open:
  assumes "tzname \<noteq> []" and "zn tzname = Some now" and "minute now < 60"
    and "sh < 24" and "sm < 60" and "eh < 24" and "em < 60"
  shows "within_run_window zn tzname (hhmm sh sm) (hhmm eh em) =
         (if 60 * sh + sm < 60 * eh + em
          then 60 * sh + sm \<le> 60 * hour now + minute now \<and>
               60 * hour now + minute now < 60 * eh + em
          else 60 * sh + sm \<le> 60 * hour now + minute now \<or>
               60 * hour now + minute now < 60 * eh + em)"
proof -
  have "window_check zn tzname (hhmm sh sm) (hhmm eh em) =
         Inr (if 60 * sh + sm < 60 * eh + em
              then 60 * sh + sm \<le> 60 * hour now + minute now \<and>
                   60 * hour now + minute now < 60 * eh + em
              else 60 * sh + sm \<le> 60 * hour now + minute now \<or>
                   60 * hour now + minute now < 60 * eh + em)"
    using assms by (intro window_check_parsed parse_hm_hhmm) simp_all
  then show ?thesis
    using assms(1) by (simp add: within_run_window_def hhmm_nonempty)
qed

theorem within_run_window_half_open_witness:
  "within_run_window (clock_at 10 30) (ascii ''Europe/Riga'') (ascii ''09:00'') (ascii ''12:00'') \<and>
   \<not> within_run_window (clock_at 8 0) (ascii ''Europe/Riga'') (ascii ''09:00'') (ascii ''12:00'') \<and>
   within_run_window (clock_at 23 30) (ascii ''Europe/Riga'') (ascii ''22:00'') (ascii ''02:00'') \<and>
   \<not> within_run_window (clock_at 3 0) (ascii ''Europe/Riga'') (ascii ''22:00'') (ascii ''02:00'')"
  using within_run_window_half_open [of "ascii ''Europe/Riga''" "clock_at 10 30" _ 9 0 12 0]
    within_run_window_half_open [of "ascii ''Europe/Riga''" "clock_at 8 0" _ 9 0 12 0]
    within_run_window_half_open [of "ascii ''Europe/Riga''" "clock_at 23 30" _ 22 0 2 0]
    within_run_window_half_open [of "ascii ''Europe/Riga''" "clock_at 3 0" _ 22 0 2 0]
  by (simp add: clock_at_def hhmm_def two_digits_def digit_char_def ascii_def)




text \<open>
  Claim C10. With an empty time zone name \<open>within_run_window\<close> returns \<open>True\<close> whatever the
  bounds and the clock are: at 08:00 the window 09:00 to 12:00 is closed under a time zone
  name and open under the empty name.
\<close>

theorem within_run_window_empty_timezone:
  "within_run_window zn [] start_hm end_hm \<and>
   \<not> within_run_window (clock_at 8 0) (ascii ''Europe/Riga'') (ascii ''09:00'') (ascii ''12:00'') \<and>
   within_run_window (clock_at 8 0) [] (ascii ''09:00'') (ascii ''12:00'')"
  by (simp add: within_run_window_def window_check_def parse_hm_def py_int_def strip_def
      py_isspace_def is_digit_def replace_hm_def dt_cmp_def dt_fields_def clock_at_def ascii_def)

section \<open>Properties of the rotation engine\<close>

text \<open>A shuffle permutes: every exchange is between two positions of the list.\<close>

lemma shuffle_loop_mset:
  "k < length x \<Longrightarrow> mset (fst (shuffle_loop k x g)) = mset x"
proof (induction k arbitrary: x g)
  case 0
  then show ?case by simp
next
  case (Suc k)
  let ?j = "shd g mod (Suc k + 1)"
  have "?j < Suc k + 1" by simp
  then have j: "?j < length x" using Suc.prems by linarith
  have "mset (x[Suc k := x ! ?j, ?j := x ! Suc k]) = mset x"
    using Suc.prems j by (simp add: mset_swap)
  moreover have "k < length (x[Suc k := x ! ?j, ?j := x ! Suc k])"
    using Suc.prems by simp
  ultimately show ?case
    using Suc.IH [of "x[Suc k := x ! ?j, ?j := x ! Suc k]" "stl g"] by (simp add: Let_def)
qed

lemma shuffle_mset: "mset (fst (shuffle x g)) = mset x"
proof (cases x)
  case Nil
  then show ?thesis by (simp add: shuffle_def)
next
  case (Cons a xs)
  then show ?thesis by (simp add: shuffle_def shuffle_loop_mset)
qed

lemma shuffle_length: "length (fst (shuffle x g)) = length x"
  using shuffle_mset [of x g] by (metis size_mset)

lemma shuffle_set: "set (fst (shuffle x g)) = set x"
  using shuffle_mset [of x g] by (metis set_mset_mset)

lemma ensure_order_regenerates:
  assumes "order state = [] \<or> (\<exists>i\<in>set (order state). n \<le> i)"
  shows "fst (snd (ensure_order state n g)) =
           state\<lparr>order := fst (shuffle [0..n - 1] g), index := 0\<rparr>"
    and "fst (ensure_order state n g) = fst (shuffle [0..n - 1] g)"
  using assms by (auto simp: ensure_order_def list_ex_iff split: prod.splits)

lemma ensure_order_keeps:
  assumes "order state \<noteq> []" and "\<forall>i\<in>set (order state). i < n"
  shows "ensure_order state n g = (order state, state, g)"
  using assms by (auto simp: ensure_order_def list_ex_iff)

lemma select_idea_fresh:
  assumes "1 \<le> n"
  shows "select_idea default_state n g =
         Inr (fst (shuffle [0..int n - 1] g) ! 0, 0,
              default_state\<lparr>order := fst (shuffle [0..int n - 1] g), index := 0\<rparr>)"
proof -
  let ?o = "fst (shuffle [0..int n - 1] g)"
  have len: "length ?o = n" using assms by (simp add: shuffle_length)
  have eo: "ensure_order default_state (int n) g =
            (?o, default_state\<lparr>order := ?o, index := 0\<rparr>, snd (shuffle [0..int n - 1] g))"
    by (simp add: ensure_order_def default_state_def split: prod.splits)
  show ?thesis
    using assms len by (simp add: select_idea_def eo py_get_def)
qed

lemma select_idea_valid:
  assumes "order st \<noteq> []" and "\<forall>i\<in>set (order st). i < int n"
    and "index st = int k" and "k < length (order st)"
  shows "select_idea st n g = Inr (order st ! k, int k, st)"
  using assms by (simp add: select_idea_def ensure_order_keeps py_get_def)

lemma advance_valid:
  assumes "order st \<noteq> []" and "\<forall>i\<in>set (order st). i < int n"
    and "index st = int k" and "k < length (order st)"
  shows "advance st n g = Inr (order st ! k, st\<lparr>index := int k + 1\<rparr>)"
  using select_idea_valid [OF assms] by (simp add: advance_def)

lemma advance_runs_valid:
  "order st \<noteq> [] \<Longrightarrow> \<forall>i\<in>set (order st). i < int n \<Longrightarrow> index st = int k \<Longrightarrow>
   k + length gs \<le> length (order st) \<Longrightarrow>
   advance_runs st n gs =
     Inr (map ((!) (order st)) [k..<k + length gs], st\<lparr>index := int (k + length gs)\<rparr>)"
proof (induction gs arbitrary: st k)
  case Nil
  then show ?case by simp
next
  case (Cons g gs)
  have k: "k < length (order st)" using Cons.prems(4) by simp
  have adv: "advance st n g = Inr (order st ! k, st\<lparr>index := int k + 1\<rparr>)"
    using Cons.prems(1-3) k by (rule advance_valid)
  have rest: "advance_runs (st\<lparr>index := int k + 1\<rparr>) n gs =
      Inr (map ((!) (order st)) [Suc k..<Suc k + length gs], st\<lparr>index := int (Suc k + length gs)\<rparr>)"
    using Cons.IH [of "st\<lparr>index := int k + 1\<rparr>" "Suc k"] Cons.prems by simp
  have "[k..<k + length (g # gs)] = k # [Suc k..<Suc k + length gs]"
    by (subst upt_rec) simp
  then show ?case
    by (simp add: adv rest)
qed

text \<open>
  Claim C1. For \<open>n \<ge> 1\<close> ideas, \<open>n\<close> advances of the rotation from the default state,
  whatever the generator draws in each run, select every index of \<open>[0, n)\<close> exactly once:
  the indices selected are the stored order, which is a permutation of \<open>[0, n)\<close>.
\<close>

theorem full_cycle_is_permutation:
  assumes "1 \<le> n" and "length gs = n"
  shows "\<exists>picks st. advance_runs default_state n gs = Inr (picks, st) \<and>
           picks = order st \<and> index st = int n \<and>
           mset picks = mset [0..int n - 1] \<and> distinct picks \<and> set picks = {0..<int n} \<and>
           length picks = n"
proof -
  obtain g gs' where gs: "gs = g # gs'" and len': "length gs' = n - 1"
    using assms by (cases gs) auto
  let ?o = "fst (shuffle [0..int n - 1] g)"
  let ?st1 = "default_state\<lparr>order := ?o, index := 1\<rparr>"
  have ms: "mset ?o = mset [0..int n - 1]" by (rule shuffle_mset)
  have len: "length ?o = n" using assms(1) by (simp add: shuffle_length)
  have set_o: "set ?o = {0..<int n}" by (auto simp: shuffle_set)
  have adv: "advance default_state n g = Inr (?o ! 0, ?st1)"
    using assms(1) by (simp add: advance_def select_idea_fresh)
  have rest: "advance_runs ?st1 n gs' =
     Inr (map ((!) (order ?st1)) [1..<1 + length gs'], ?st1\<lparr>index := int (1 + length gs')\<rparr>)"
    using assms(1) len len' set_o by (intro advance_runs_valid) auto
  have "?o ! 0 # map ((!) ?o) [1..<n] = map ((!) ?o) [0..<n]"
    using assms(1) by (subst (2) upt_rec) simp
  also have "\<dots> = ?o" using len by (metis map_nth)
  finally have picks: "?o ! 0 # map ((!) ?o) [1..<n] = ?o" .
  have run: "advance_runs default_state n gs = Inr (?o, ?st1\<lparr>index := int n\<rparr>)"
    using assms(1) len' picks by (simp add: gs adv rest)
  have "distinct ?o"
    using ms by (metis distinct_upto mset_eq_imp_distinct_iff)
  then show ?thesis
    using run ms len set_o by simp
qed

section \<open>Evaluation on the example worlds\<close>

lemma ex_ideas: "load_ideas (content_file (example_world f g a)) = Inr [ascii ''alpha'', ascii ''Idea {topic}'', ascii ''gamma'']"
  by (simp add: example_world_def load_ideas_def splitlines_def is_linebreak_def strip_def py_isspace_def ascii_def)

lemma ex_open: "window_open (example_world f g a)"
  by (simp add: window_open_def example_world_def getenv_def example_env_def within_run_window_def)

lemma ex_fields:
  "state_file (example_world f g a) = f" "draws (example_world f g a) = g"
  "utc_stamp (example_world f g a) = ascii ''2024-05-17T07:30:42.000007''"
  by (simp_all add: example_world_def)

lemma ex_topic: "strip (getenv (example_world f g a) ''TOPIC'' []) = ascii ''X''"
  by (simp add: example_world_def getenv_def example_env_def strip_def py_isspace_def ascii_def)

lemma ex_tz: "getenv (example_world f g a) ''TIMEZONE'' d = d"
  by (simp add: example_world_def getenv_def example_env_def)

lemma ex_post: "post_tweet (example_world f g a) t = (if a then Inr () else Inl TweepyException)"
  by (simp add: post_tweet_def credential_def example_world_def example_env_def ascii_def)

lemma shuffle_loop_numeral:
  "shuffle_loop (numeral v) x g =
     (let i = numeral v; j = shd g mod (i + 1)
      in shuffle_loop (pred_numeral v) (x[i := x ! j, j := x ! i]) (stl g))"
  by (simp add: numeral_eq_Suc Let_def)

lemma ex_shuffle0: "shuffle [0..2] (sconst 0) = ([1, 2, 0], sconst 0)"
  by (simp add: shuffle_def upto.simps shuffle_loop_numeral Let_def)

lemma ex_shuffle1: "shuffle [0..2] (4 ## sconst 0) = ([2, 0, 1], sconst 0)"
  by (simp add: shuffle_def upto.simps shuffle_loop_numeral Let_def)

lemma ex_build: "build_tweet (example_world f g a) raw (ascii ''Europe/Riga'') = Inr (trim_to_limit (strip raw) 280)"
  by (simp add: build_tweet_def example_world_def add_date_def add_hashtag_def getenv_def example_env_def
      lower_def clock_at_def strip_def ascii_def)

lemma ex_subst:
  "substitute_topic (ascii ''X'') (ascii ''alpha'') = ascii ''alpha''"
  "substitute_topic (ascii ''X'') (ascii ''Idea {topic}'') = ascii ''Idea X''"
  "substitute_topic (ascii ''X'') (ascii ''gamma'') = ascii ''gamma''"
  by (simp_all add: substitute_topic_def ascii_def)

lemma ex_trim:
  "trim_to_limit (strip (ascii ''alpha'')) 280 = ascii ''alpha''"
  "trim_to_limit (strip (ascii ''Idea X'')) 280 = ascii ''Idea X''"
  "trim_to_limit (strip (ascii ''gamma'')) 280 = ascii ''gamma''"
  by (simp_all add: trim_to_limit_def strip_def py_isspace_def ascii_def)

lemmas ex_simps = main_def ex_open ex_ideas ex_fields ex_topic ex_tz ex_post ex_build ex_subst ex_trim
  load_state_def read_json_def select_idea_def ensure_order_def py_get_def Let_def

lemma ex_main_fail:
  "main (example_world (Stored \<lparr>index = 1, order = [2, 0, 1], last_posted_at = None\<rparr>) g False) =
   \<lparr>outcome = Raised TweepyException,
    state_file_after = Stored \<lparr>index = 1, order = [2, 0, 1], last_posted_at = None\<rparr>,
    selected = Some 0\<rparr>"
  by (simp add: ex_simps)

lemma ex_main_retry:
  "main (example_world (Stored \<lparr>index = 1, order = [2, 0, 1], last_posted_at = None\<rparr>) g True) =
   \<lparr>outcome = Posted (ascii ''alpha''),
    state_file_after = Stored \<lparr>index = 2, order = [2, 0, 1],
       last_posted_at = Some (ascii ''2024-05-17T07:30:42.000007Z'')\<rparr>,
    selected = Some 0\<rparr>"
  by (simp add: ex_simps) (simp add: ascii_def)

lemma ex_main_fresh0:
  "main (example_world Absent (sconst 0) False) =
   \<lparr>outcome = Raised TweepyException, state_file_after = Absent, selected = Some 1\<rparr>"
  by (simp add: ex_simps default_state_def ex_shuffle0)

lemma ex_main_fresh1:
  "main (example_world Absent (4 ## sconst 0) False) =
   \<lparr>outcome = Raised TweepyException, state_file_after = Absent, selected = Some 2\<rparr>"
  by (simp add: ex_simps default_state_def ex_shuffle1)

lemma ex_main_negative:
  "main (example_world (Stored \<lparr>index = 0, order = [- 4, 0, 1], last_posted_at = None\<rparr>) g True) =
   \<lparr>outcome = Raised IndexError,
    state_file_after = Stored \<lparr>index = 0, order = [- 4, 0, 1], last_posted_at = None\<rparr>,
    selected = Some (- 4)\<rparr>"
  by (simp add: ex_simps)

theorem full_cycle_is_permutation_witness:
  "(1::nat) \<le> 3 \<and> length [sconst 0, 4 ## sconst 0, sconst (7::nat)] = 3 \<and>
   advance_runs default_state 3 [sconst 0, 4 ## sconst 0, sconst 7] =
     Inr ([1, 2, 0], \<lparr>index = 3, order = [1, 2, 0], last_posted_at = None\<rparr>)"
proof -
  obtain picks st where run: "advance_runs default_state 3 [sconst 0, 4 ## sconst 0, sconst 7] = Inr (picks, st)"
    and p: "picks = order st" "index st = int 3" "mset picks = mset [0..int 3 - 1]"
    using full_cycle_is_permutation [of 3 "[sconst 0, 4 ## sconst 0, sconst 7]"] by auto
  have first: "advance default_state 3 (sconst 0) = Inr (1, \<lparr>index = 1, order = [1, 2, 0], last_posted_at = None\<rparr>)"
    by (simp add: advance_def select_idea_def ensure_order_def default_state_def ex_shuffle0 py_get_def)
  have "advance_runs default_state 3 [sconst 0, 4 ## sconst 0, sconst 7] =
     Inr ([1, 2, 0], \<lparr>index = 3, order = [1, 2, 0], last_posted_at = None\<rparr>)"
    by (simp add: first) (simp add: advance_def select_idea_def ensure_order_def py_get_def)
  then show ?thesis by simp
qed

section \<open>Properties of the run\<close>

lemma load_ideas_errors:
  "load_ideas c = Inl e \<Longrightarrow> e = FileNotFoundError \<or> e = ValueError"
  by (auto simp: load_ideas_def Let_def split: option.splits if_splits)

lemma py_get_errors: "py_get xs i = Inl e \<Longrightarrow> e = IndexError"
  by (auto simp: py_get_def Let_def split: if_splits)

lemma select_idea_errors: "select_idea st n g = Inl e \<Longrightarrow> e = IndexError"
  by (auto simp: select_idea_def Let_def split: prod.splits sum.splits dest: py_get_errors)

lemma build_tweet_errors: "build_tweet w raw tz = Inl e \<Longrightarrow> e = UnknownTimeZoneError"
  by (auto simp: build_tweet_def Let_def split: option.splits)

lemma main_written_posted:
  "state_file_after (main w) \<noteq> state_file w \<Longrightarrow> \<exists>t. outcome (main w) = Posted t"
  by (auto simp: main_def Let_def split: sum.splits prod.splits if_splits)

lemma main_not_posted:
  "(\<And>t. outcome (main w) \<noteq> Posted t) \<Longrightarrow> state_file_after (main w) = state_file w"
  using main_written_posted [of w] by blast

lemma main_publish_failed_selected:
  assumes "outcome (main w) = Raised TweepyException \<or> outcome (main w) = Raised RuntimeError"
  shows "selected (main w) \<noteq> None"
  using assms
  by (auto simp: main_def Let_def split: sum.splits prod.splits if_splits
      dest: load_ideas_errors select_idea_errors py_get_errors build_tweet_errors)

lemma main_posted:
  assumes "outcome (main w) = Posted t"
  shows "\<exists>st idx i. state_file_after (main w) = Stored st \<and> index st = idx + 1 \<and>
           py_get (order st) idx = Inr i \<and> selected (main w) = Some i"
  using assms
  by (auto simp: main_def select_idea_def Let_def split: sum.splits prod.splits if_splits)

lemma main_selected_stored:
  assumes "window_open w" and "load_ideas (content_file w) = Inr ideas"
    and "state_file w = Stored st" and "order st \<noteq> []"
    and "\<forall>i\<in>set (order st). i < int (length ideas)"
    and "index st < int (length (order st))"
  shows "selected (main w) = (case py_get (order st) (index st) of Inl e \<Rightarrow> None | Inr i \<Rightarrow> Some i)"
  using assms
  by (auto simp: main_def select_idea_def ensure_order_keeps load_state_def read_json_def Let_def
      split: sum.splits prod.splits)

text \<open>
  Claim C3, as amended. If the publish step raises (the posting service refuses the text, or
  a credential is missing), the run ends without writing the state file, so the persisted
  state, its \<open>index\<close> included, is as before the run. If moreover the persisted order needed
  no shuffle (it is not empty, every value is below the number of ideas, and the cursor is
  below its length), then a next run on that state file and the same ideas whose window is
  open selects the same idea index. The state file changes only in a run that posts, and
  then its \<open>index\<close> is the cursor of the selection plus one.
\<close>

theorem failed_publish_keeps_state:
  "(outcome (main w) = Raised TweepyException \<or> outcome (main w) = Raised RuntimeError \<longrightarrow>
      state_file_after (main w) = state_file w \<and> selected (main w) \<noteq> None \<and>
      (\<forall>w' st ideas.
         state_file w = Stored st \<and> load_ideas (content_file w) = Inr ideas \<and>
         order st \<noteq> [] \<and> (\<forall>i\<in>set (order st). i < int (length ideas)) \<and>
         index st < int (length (order st)) \<and>
         state_file w' = state_file_after (main w) \<and> content_file w' = content_file w \<and>
         window_open w'
         \<longrightarrow> selected (main w') = selected (main w))) \<and>
   (state_file_after (main w) \<noteq> state_file w \<longrightarrow> (\<exists>t. outcome (main w) = Posted t)) \<and>
   (\<forall>t. outcome (main w) = Posted t \<longrightarrow>
      (\<exists>st idx i. state_file_after (main w) = Stored st \<and> index st = idx + 1 \<and>
         py_get (order st) idx = Inr i \<and> selected (main w) = Some i))"
proof (intro conjI impI allI)
  assume fail: "outcome (main w) = Raised TweepyException \<or> outcome (main w) = Raised RuntimeError"
  then show kept: "state_file_after (main w) = state_file w"
    by (intro main_not_posted) auto
  show "selected (main w) \<noteq> None"
    using fail by (rule main_publish_failed_selected)
  fix w' st ideas
  assume a: "state_file w = Stored st \<and> load_ideas (content_file w) = Inr ideas \<and>
         order st \<noteq> [] \<and> (\<forall>i\<in>set (order st). i < int (length ideas)) \<and>
         index st < int (length (order st)) \<and>
         state_file w' = state_file_after (main w) \<and> content_file w' = content_file w \<and>
         window_open w'"
  have open_w: "window_open w"
    using fail by (auto simp: main_def Let_def split: if_splits)
  have "selected (main w) = (case py_get (order st) (index st) of Inl e \<Rightarrow> None | Inr i \<Rightarrow> Some i)"
    using a open_w by (intro main_selected_stored [of w ideas]) auto
  moreover have "selected (main w') = (case py_get (order st) (index st) of Inl e \<Rightarrow> None | Inr i \<Rightarrow> Some i)"
    using a kept by (intro main_selected_stored [of w' ideas]) auto
  ultimately show "selected (main w') = selected (main w)" by simp
next
  assume "state_file_after (main w) \<noteq> state_file w"
  then show "\<exists>t. outcome (main w) = Posted t"
    by (rule main_written_posted)
next
  fix t assume "outcome (main w) = Posted t"
  then show "\<exists>st idx i. state_file_after (main w) = Stored st \<and> index st = idx + 1 \<and>
         py_get (order st) idx = Inr i \<and> selected (main w) = Some i"
    by (rule main_posted)
qed

theorem failed_publish_keeps_state_witness:
  "outcome (main (example_world (Stored stored_example) (sconst 0) False)) = Raised TweepyException \<and>
   state_file_after (main (example_world (Stored stored_example) (sconst 0) False)) =
     Stored stored_example \<and>
   selected (main (example_world (Stored stored_example) (sconst 0) False)) = Some 0 \<and>
   selected (main (example_world (Stored stored_example) (4 ## sconst 0) True)) = Some 0 \<and>
   outcome (main (example_world (Stored stored_example) (4 ## sconst 0) True)) =
     Posted (ascii ''alpha'') \<and>
   state_file_after (main (example_world (Stored stored_example) (4 ## sconst 0) True)) =
     Stored \<lparr>index = 2, order = [2, 0, 1],
       last_posted_at = Some (ascii ''2024-05-17T07:30:42.000007Z'')\<rparr>"
proof -
  let ?wf = "example_world (Stored stored_example) (sconst 0) False"
  let ?wr = "example_world (Stored stored_example) (4 ## sconst 0) True"
  have fail: "main ?wf = \<lparr>outcome = Raised TweepyException,
      state_file_after = Stored stored_example, selected = Some 0\<rparr>"
    unfolding stored_example_def by (rule ex_main_fail)
  have retry: "main ?wr = \<lparr>outcome = Posted (ascii ''alpha''),
      state_file_after = Stored \<lparr>index = 2, order = [2, 0, 1],
        last_posted_at = Some (ascii ''2024-05-17T07:30:42.000007Z'')\<rparr>,
      selected = Some 0\<rparr>"
    unfolding stored_example_def by (rule ex_main_retry)
  have se: "order stored_example = [2, 0, 1]" "index stored_example = 1"
    by (simp_all add: stored_example_def)
  have T: "state_file_after (main ?wf) = state_file ?wf \<and> selected (main ?wf) \<noteq> None \<and>
      (\<forall>w' st ideas.
         state_file ?wf = Stored st \<and> load_ideas (content_file ?wf) = Inr ideas \<and>
         order st \<noteq> [] \<and> (\<forall>i\<in>set (order st). i < int (length ideas)) \<and>
         index st < int (length (order st)) \<and>
         state_file w' = state_file_after (main ?wf) \<and> content_file w' = content_file ?wf \<and>
         window_open w'
         \<longrightarrow> selected (main w') = selected (main ?wf))"
    using failed_publish_keeps_state [of ?wf] fail by simp
  from T have "state_file ?wf = Stored stored_example \<and>
         load_ideas (content_file ?wf) = Inr [ascii ''alpha'', ascii ''Idea {topic}'', ascii ''gamma''] \<and>
         order stored_example \<noteq> [] \<and>
         (\<forall>i\<in>set (order stored_example). i < int (length [ascii ''alpha'', ascii ''Idea {topic}'', ascii ''gamma''])) \<and>
         index stored_example < int (length (order stored_example)) \<and>
         state_file ?wr = state_file_after (main ?wf) \<and> content_file ?wr = content_file ?wf \<and>
         window_open ?wr
         \<longrightarrow> selected (main ?wr) = selected (main ?wf)"
    by blast
  moreover have "content_file ?wr = content_file ?wf"
    by (simp add: example_world_def)
  ultimately have same: "selected (main ?wr) = selected (main ?wf)"
    by (simp add: ex_fields ex_ideas ex_open fail se)
  show ?thesis
    using same T by (simp add: fail retry ex_fields)
qed

text \<open>
  The claim as stated fails on a first run: the state file is absent, the order is shuffled
  in memory, the publish step raises and nothing is written; the next run shuffles again,
  with other draws, and selects another idea.
\<close>

theorem retry_after_first_run_counterexample:
  "outcome (main (example_world Absent (sconst 0) False)) = Raised TweepyException \<and>
   state_file_after (main (example_world Absent (sconst 0) False)) = Absent \<and>
   state_file (example_world Absent (4 ## sconst 0) False) =
     state_file_after (main (example_world Absent (sconst 0) False)) \<and>
   content_file (example_world Absent (4 ## sconst 0) False) =
     content_file (example_world Absent (sconst 0) False) \<and>
   window_open (example_world Absent (4 ## sconst 0) False) \<and>
   selected (main (example_world Absent (sconst 0) False)) = Some 1 \<and>
   selected (main (example_world Absent (4 ## sconst 0) False)) = Some 2"
  by (simp add: ex_main_fresh0 ex_main_fresh1 ex_fields ex_open) (simp add: example_world_def)

text \<open>
  Claim C2 fails on the code for a negative value: \<open>ensure_order\<close> compares with \<open>n\<close> only,
  so the stored order \<open>[-4, 0, 1]\<close> is kept for three ideas, and the run then raises
  \<open>IndexError\<close> at \<open>ideas[-4]\<close> and leaves the state file as it is.
\<close>

theorem negative_order_not_regenerated:
  "ensure_order negative_example 3 g = ([- 4, 0, 1], negative_example, g) \<and>
   main (example_world (Stored negative_example) g True) =
     \<lparr>outcome = Raised IndexError, state_file_after = Stored negative_example,
      selected = Some (- 4)\<rparr>"
  by (simp add: ex_main_negative [unfolded negative_example_def [symmetric]])
     (simp add: ensure_order_def negative_example_def)

text \<open>
  Claim C9. When the state file is absent, and when reading it raises, \<open>load_state\<close> returns
  the default state: index 0, an empty order and no time stamp. The failure does not
  surface: a run on an unreadable state file ends as the run on an absent one.
\<close>

theorem load_state_default:
  "load_state Absent = default_state \<and>
   read_json Unparseable = Inl ValueError \<and> load_state Unparseable = default_state \<and>
   default_state = \<lparr>index = 0, order = [], last_posted_at = None\<rparr> \<and>
   outcome (main (w\<lparr>state_file := Unparseable\<rparr>)) = outcome (main (w\<lparr>state_file := Absent\<rparr>)) \<and>
   selected (main (w\<lparr>state_file := Unparseable\<rparr>)) = selected (main (w\<lparr>state_file := Absent\<rparr>))"
proof -
  have ls: "load_state Unparseable = load_state Absent"
    by (simp add: load_state_def read_json_def)
  have flags: "getenv (w\<lparr>state_file := f\<rparr>) = getenv w"
    "add_date (w\<lparr>state_file := f\<rparr>) = add_date w"
    "add_hashtag (w\<lparr>state_file := f\<rparr>) = add_hashtag w" for f
    by (simp_all add: getenv_def add_date_def add_hashtag_def fun_eq_iff)
  have env: "window_open (w\<lparr>state_file := f\<rparr>) = window_open w"
    "build_tweet (w\<lparr>state_file := f\<rparr>) = build_tweet w"
    "post_tweet (w\<lparr>state_file := f\<rparr>) = post_tweet w" for f
    by (simp_all add: window_open_def build_tweet_def post_tweet_def credential_def
        flags fun_eq_iff Let_def split: option.splits)
  have "outcome (main (w\<lparr>state_file := Unparseable\<rparr>)) = outcome (main (w\<lparr>state_file := Absent\<rparr>))"
    by (simp add: main_def env flags ls Let_def split: sum.splits prod.splits)
  moreover have "selected (main (w\<lparr>state_file := Unparseable\<rparr>)) = selected (main (w\<lparr>state_file := Absent\<rparr>))"
    by (simp add: main_def env flags ls Let_def split: sum.splits prod.splits)
  ultimately show ?thesis
    by (simp add: load_state_def read_json_def default_state_def)
qed



end
